theory Spec2Isabelle
  imports Main "HOL-Library.Word"
begin

unbundle bit_operations_syntax

section \<open>The ILI9341 display driver (m5stack/ili9341.py)\<close>

text \<open>
  Python integers are modelled as \<open>int\<close>, the elements of \<open>bytes\<close> and
  \<open>bytearray\<close> objects as \<open>8 word\<close>. Everything the driver does to its pins and to
  the SPI bus is appended to a log kept in the driver state, in program order.
\<close>

subsection \<open>Constants\<close>

type_synonym byte = "8 word"

definition COLUMN_SET :: byte where "COLUMN_SET = 0x2a"
definition PAGE_SET :: byte where "PAGE_SET = 0x2b"
definition RAM_WRITE :: byte where "RAM_WRITE = 0x2c"
definition RAM_READ :: byte where "RAM_READ = 0x2e"
definition LINE_SET :: byte where "LINE_SET = 0x37"
definition MADCTL :: byte where "MADCTL = 0x36"

definition MADCTL_MY :: int where "MADCTL_MY = 0x80"
definition MADCTL_MX :: int where "MADCTL_MX = 0x40"
definition MADCTL_MV :: int where "MADCTL_MV = 0x20"
definition MADCTL_RGB :: int where "MADCTL_RGB = 0x00"
definition MADCTL_BGR :: int where "MADCTL_BGR = 0x08"

text \<open>The class attributes \<open>width\<close> and \<open>height\<close>.\<close>

definition width :: int where "width = 320"
definition height :: int where "height = 240"

subsection \<open>Pure helpers\<close>

text \<open>
  \<open>color565(r, g, b)\<close>: in Python the shifts bind tighter than \<open>&\<close>, which binds
  tighter than \<open>|\<close>; \<open>>>\<close> on integers is floor division by a power of two.
\<close>

definition color565 :: "int \<Rightarrow> int \<Rightarrow> int \<Rightarrow> int" where
  "color565 r g b = push_bit 8 (r AND 0xf8) OR push_bit 3 (g AND 0xfc) OR drop_bit 3 b"

text \<open>
  \<open>ustruct.pack(">H", v)\<close>: two bytes, most significant first. MicroPython's
  \<open>ustruct\<close> stores the low 16 bits of \<open>v\<close> and does no range check.
  \<open>ustruct.pack(">HH", a, b)\<close> is the two encodings one after the other.
\<close>

definition pack_H :: "int \<Rightarrow> byte list" where
  "pack_H v = [word_of_int (drop_bit 8 v), word_of_int v]"

definition pack_HH :: "int \<Rightarrow> int \<Rightarrow> byte list" where
  "pack_HH a b = pack_H a @ pack_H b"

subsection \<open>Driver state and bus primitives\<close>

datatype event =
    DC int                   \<comment> \<open>\<open>self.dc.value(v)\<close>\<close>
  | CS int                   \<comment> \<open>\<open>self.cs.value(v)\<close>\<close>
  | SPI_write "byte list"    \<comment> \<open>\<open>self.spi.write(data)\<close>\<close>
  | SPI_read int             \<comment> \<open>\<open>self.spi.read(count)\<close>\<close>

datatype error =
    ReadCountError     \<comment> \<open>\<open>spi.read\<close> called with a negative count\<close>
  | UnpackError        \<comment> \<open>\<open>r, b, g = ...\<close> on a sequence that has not three elements\<close>
  | GlyphIndexError    \<comment> \<open>\<open>glyph[i]\<close> past the end of the glyph\<close>
  | BufferSizeError    \<comment> \<open>\<open>bytearray(n)\<close> with a negative \<open>n\<close>\<close>

text \<open>
  The driver instance: \<open>self.mode\<close>, \<open>self._scroll\<close>, the log of pin and bus
  operations, and the bytes the panel answers to a bus read (\<open>miso s i\<close> is the
  \<open>i\<close>-th byte that \<open>spi.read\<close> returns).
\<close>

record driver =
  mode :: int
  scroll_offset :: int
  bus :: "event list"
  miso :: "nat \<Rightarrow> byte"

text \<open>\<open>_data(data)\<close>\<close>

definition priv_data :: "byte list \<Rightarrow> driver \<Rightarrow> driver" where
  "priv_data data s = s\<lparr>bus := bus s @ [DC 1, CS 0, SPI_write data, CS 1]\<rparr>"

text \<open>\<open>_write(command, data=None)\<close>\<close>

definition priv_write :: "byte \<Rightarrow> byte list option \<Rightarrow> driver \<Rightarrow> driver" where
  "priv_write command data s =
     (let s1 = s\<lparr>bus := bus s @ [DC 0, CS 0, SPI_write [command], CS 1]\<rparr>
      in case data of None \<Rightarrow> s1 | Some d \<Rightarrow> priv_data d s1)"

text \<open>
  \<open>_read(command, count)\<close>: \<open>spi.read(count)\<close> returns \<open>count\<close> bytes; a
  negative count is an error (the state reached at the error is not kept).
\<close>

definition priv_read :: "byte \<Rightarrow> int \<Rightarrow> driver \<Rightarrow> error + (byte list \<times> driver)" where
  "priv_read command count s =
     (if count < 0 then Inl ReadCountError
      else Inr (map (miso s) [0..<nat count],
                s\<lparr>bus := bus s @ [DC 0, CS 0, SPI_write [command], SPI_read count, CS 1]\<rparr>))"

text \<open>\<open>_block(x0, y0, x1, y1, data=None)\<close>: returns the bytes read, or \<open>None\<close>.\<close>

definition priv_block ::
  "int \<Rightarrow> int \<Rightarrow> int \<Rightarrow> int \<Rightarrow> byte list option \<Rightarrow> driver \<Rightarrow> error + (byte list option \<times> driver)" where
  "priv_block x0 y0 x1 y1 data s =
     (let s1 = priv_write COLUMN_SET (Some (pack_HH x0 x1)) s;
          s2 = priv_write PAGE_SET (Some (pack_HH y0 y1)) s1
      in case data of
           None \<Rightarrow>
             (case priv_read RAM_READ ((x1 - x0 + 1) * (y1 - y0 + 1) * 3) s2 of
                Inl e \<Rightarrow> Inl e
              | Inr (d, s3) \<Rightarrow> Inr (Some d, s3))
         | Some d \<Rightarrow> Inr (None, priv_write RAM_WRITE (Some d) s2))"

subsection \<open>Rotation and scrolling\<close>

text \<open>\<open>set_rotation(value)\<close>: Python's \<open>%\<close> with a positive modulus is \<open>mod\<close>.\<close>

definition set_rotation :: "int \<Rightarrow> driver \<Rightarrow> driver" where
  "set_rotation val s =
     (let values = [MADCTL_MX OR mode s,
                    MADCTL_MV OR mode s,
                    MADCTL_MY OR mode s,
                    MADCTL_MX OR MADCTL_MY OR MADCTL_MV OR mode s]
      in priv_write MADCTL (Some (pack_H (values ! nat (val mod 4)))) s)"

text \<open>\<open>scroll(dy=None)\<close>: the returned value (\<open>None\<close> after a write) and the new state.\<close>

definition scroll :: "int option \<Rightarrow> driver \<Rightarrow> int option \<times> driver" where
  "scroll dy s =
     (case dy of
        None \<Rightarrow> (Some (scroll_offset s), s)
      | Some d \<Rightarrow>
          (let s1 = s\<lparr>scroll_offset := (scroll_offset s + d) mod height\<rparr>
           in (None, priv_write LINE_SET (Some (pack_H (scroll_offset s1))) s1)))"

subsection \<open>Pixels and rectangles\<close>

text \<open>\<open>pixel(x, y, color=None)\<close>: a read returns the colour, a write returns \<open>None\<close>.\<close>

definition pixel :: "int \<Rightarrow> int \<Rightarrow> int option \<Rightarrow> driver \<Rightarrow> error + (int option \<times> driver)" where
  "pixel x y color s =
     (case color of
        None \<Rightarrow>
          (case priv_block x y x y None s of
             Inl e \<Rightarrow> Inl e
           | Inr (res, s1) \<Rightarrow>
               (case res of
                  Some [r, b, g] \<Rightarrow> Inr (Some (color565 (uint r) (uint g) (uint b)), s1)
                | _ \<Rightarrow> Inl UnpackError))
      | Some c \<Rightarrow>
          if \<not> (0 \<le> x \<and> x < width) \<or> \<not> (0 \<le> y \<and> y < height) then Inr (None, s)
          else (case priv_block x y x y (Some (pack_H c)) s of
                  Inl e \<Rightarrow> Inl e
                | Inr (_, s1) \<Rightarrow> Inr (None, s1)))"

text \<open>The four clamping assignments that open \<open>fill_rectangle\<close>.\<close>

definition fill_clamp :: "int \<Rightarrow> int \<Rightarrow> int \<Rightarrow> int \<Rightarrow> int \<times> int \<times> int \<times> int" where
  "fill_clamp x y w h =
     (let x = min (width - 1) (max 0 x);
          y = min (height - 1) (max 0 y);
          w = min (width - x) (max 1 w);
          h = min (height - y) (max 1 h)
      in (x, y, w, h))"

text \<open>
  \<open>fill_rectangle(x, y, w, h, color)\<close>: \<open>bytes * n\<close> repeats the two packed bytes
  \<open>n\<close> times; the \<open>for\<close> loop over \<open>range(chunks)\<close> is a fold.
\<close>

definition fill_rectangle :: "int \<Rightarrow> int \<Rightarrow> int \<Rightarrow> int \<Rightarrow> int \<Rightarrow> driver \<Rightarrow> error + driver" where
  "fill_rectangle x y w h color s =
     (case fill_clamp x y w h of (x, y, w, h) \<Rightarrow>
        (case priv_block x y (x + w - 1) (y + h - 1) (Some []) s of
           Inl e \<Rightarrow> Inl e
         | Inr (_, s1) \<Rightarrow>
             (let chunks = (w * h) div 512;
                  rest = (w * h) mod 512;
                  s2 = (if chunks \<noteq> 0
                        then (let data = concat (replicate 512 (pack_H color))
                              in fold (\<lambda>count. priv_data data) [0..<nat chunks] s1)
                        else s1);
                  data = concat (replicate (nat rest) (pack_H color))
              in Inr (priv_data data s2))))"

text \<open>\<open>fill(color)\<close>\<close>

definition fill :: "int \<Rightarrow> driver \<Rightarrow> error + driver" where
  "fill color s = fill_rectangle 0 0 width height color s"

subsection \<open>Characters and text\<close>

text \<open>
  The fonts are not part of the repository, so they are parameters.
  \<open>font8 ch c\<close> is byte \<open>c\<close> of the 8-byte buffer after
  \<open>framebuf.FrameBuffer1(buffer, 8, 8).text(ch, 0, 0)\<close>; a \<open>font\<close> is the
  \<open>get_ch\<close> of an external font object, returning the glyph bytes, the height and
  the width of a character.
\<close>

type_synonym glyphs = "char \<Rightarrow> nat \<Rightarrow> byte"
type_synonym font = "char \<Rightarrow> byte list \<times> int \<times> int"

text \<open>The body of the inner loop of \<open>char\<close>, for column \<open>c\<close> and row \<open>r\<close>.\<close>

definition char_cell :: "byte list \<Rightarrow> byte list \<Rightarrow> nat \<Rightarrow> byte \<Rightarrow> nat \<Rightarrow> byte list \<Rightarrow> byte list" where
  "char_cell color background c byte r data =
     (if uint byte AND push_bit r 1 \<noteq> 0
      then data[r * 8 * 2 + c * 2 := color ! 0, r * 8 * 2 + c * 2 + 1 := color ! 1]
      else data[r * 8 * 2 + c * 2 := background ! 0, r * 8 * 2 + c * 2 + 1 := background ! 1])"

text \<open>
  The pixel buffer that \<open>char\<close> builds: the 8-byte frame buffer holds one byte
  per column, the two loops copy it row by row into 2 * 8 * 8 bytes.
\<close>

definition char_data :: "glyphs \<Rightarrow> char \<Rightarrow> int \<Rightarrow> int \<Rightarrow> byte list" where
  "char_data font8 ch color background =
     (let buffer = map (font8 ch) [0..<8];
          color = pack_H color;
          background = pack_H background
      in fold (\<lambda>(c, byte). fold (char_cell color background c byte) [0..<8])
           (enumerate 0 buffer) (replicate (2 * 8 * 8) 0))"

text \<open>\<open>char(char, x, y, color, background)\<close>\<close>

definition char_op :: "glyphs \<Rightarrow> char \<Rightarrow> int \<Rightarrow> int \<Rightarrow> int \<Rightarrow> int \<Rightarrow> driver \<Rightarrow> error + driver" where
  "char_op font8 ch x y color background s =
     (let data = char_data font8 ch color background
      in case priv_block x y (x + 7) (y + 7) (Some data) s of
           Inl e \<Rightarrow> Inl e
         | Inr (_, s1) \<Rightarrow> Inr s1)"

text \<open>
  The body of the inner loop of \<open>font_char\<close>, for source column \<open>scol\<close> and source
  row \<open>srow\<close>. The loop state is the current glyph byte \<open>data\<close> and the output
  buffer; \<open>data\<close> is assigned at row 0 of every column before it is read.
\<close>

definition font_cell ::
  "byte list \<Rightarrow> int \<Rightarrow> int \<Rightarrow> byte list \<Rightarrow> byte list \<Rightarrow> nat \<Rightarrow> nat \<Rightarrow>
   error + (byte \<times> byte list) \<Rightarrow> error + (byte \<times> byte list)" where
  "font_cell glyph gbytes char_width color background scol srow st =
     (case st of
        Inl e \<Rightarrow> Inl e
      | Inr (data, odata) \<Rightarrow>
          (let gbyte = srow div 8;
               gbit = srow mod 8;
               i = int scol * gbytes + int gbyte;
               k = srow * nat char_width * 2 + scol * 2
           in case (if gbit = 0
                    then (if i < int (length glyph) then Inr (glyph ! nat i)
                          else Inl GlyphIndexError)
                    else Inr data) of
                Inl e \<Rightarrow> Inl e
              | Inr data \<Rightarrow>
                  if uint data AND push_bit gbit 1 \<noteq> 0
                  then Inr (data, odata[k := color ! 0, k + 1 := color ! 1])
                  else Inr (data, odata[k := background ! 0, k + 1 := background ! 1])))"

text \<open>
  The pixel buffer that \<open>font_char\<close> builds from \<open>glyph, char_height, char_width\<close>:
  the packed colours, the number of glyph bytes per column, the \<open>bytearray\<close> of
  \<open>2 * char_height * char_width\<close> bytes and the two loops. \<open>range(n)\<close> is empty
  for a negative \<open>n\<close>.
\<close>

definition font_data :: "byte list \<Rightarrow> int \<Rightarrow> int \<Rightarrow> int \<Rightarrow> int \<Rightarrow> error + byte list" where
  "font_data glyph char_height char_width color background =
     (let color = pack_H color;
          background = pack_H background;
          gbytes = (if char_height mod 8 \<noteq> 0 then char_height div 8 + 1
                    else char_height div 8)
      in if 2 * char_height * char_width < 0 then Inl BufferSizeError
         else
           (case fold (\<lambda>scol. fold (font_cell glyph gbytes char_width color background scol)
                                 [0..<nat char_height])
                   [0..<nat char_width]
                   (Inr (0, replicate (nat (2 * char_height * char_width)) 0)) of
              Inl e \<Rightarrow> Inl e
            | Inr (_, odata) \<Rightarrow> Inr odata))"

text \<open>\<open>font_char(font, char, x, y, color, background)\<close>: returns the glyph's width.\<close>

definition font_char ::
  "font \<Rightarrow> char \<Rightarrow> int \<Rightarrow> int \<Rightarrow> int \<Rightarrow> int \<Rightarrow> driver \<Rightarrow> error + (int \<times> driver)" where
  "font_char fnt ch x y color background s =
     (case fnt ch of (glyph, char_height, char_width) \<Rightarrow>
        (case font_data glyph char_height char_width color background of
           Inl e \<Rightarrow> Inl e
         | Inr odata \<Rightarrow>
             (case priv_block x y (x + char_width - 1) (y + char_height - 1)
                     (Some odata) s of
                Inl e \<Rightarrow> Inl e
              | Inr (_, s1) \<Rightarrow> Inr (char_width, s1))))"

text \<open>The closure \<open>new_line\<close> of \<open>text\<close>, on the cursor \<open>(tx, ty)\<close>.\<close>

definition new_line :: "int \<Rightarrow> int \<Rightarrow> int \<Rightarrow> int \<times> int \<Rightarrow> int \<times> int" where
  "new_line x y vwrap cur =
     (case cur of (tx, ty) \<Rightarrow>
        (let tx = x; ty = ty + 8
         in if ty \<ge> vwrap then (tx, y) else (tx, ty)))"

text \<open>One iteration of the loop of \<open>text\<close> over the characters.\<close>

definition text_step ::
  "glyphs \<Rightarrow> int \<Rightarrow> int \<Rightarrow> int \<Rightarrow> int \<Rightarrow> int \<Rightarrow> int \<Rightarrow> bool \<Rightarrow> font option \<Rightarrow>
   char \<Rightarrow> int \<times> int \<times> driver \<Rightarrow> error + (int \<times> int \<times> driver)" where
  "text_step font8 x y color background wrap vwrap clear_eol fnt ch st =
     (case st of (tx, ty, s) \<Rightarrow>
        if ch = CHR 0x0A then
          (case (if clear_eol \<and> tx < wrap
                 then fill_rectangle tx ty (wrap - tx + 7) 8 background s
                 else Inr s) of
             Inl e \<Rightarrow> Inl e
           | Inr s1 \<Rightarrow> (case new_line x y vwrap (tx, ty) of (tx, ty) \<Rightarrow> Inr (tx, ty, s1)))
        else
          (case (if tx \<ge> wrap then new_line x y vwrap (tx, ty) else (tx, ty)) of
             (tx, ty) \<Rightarrow>
               (case fnt of
                  None \<Rightarrow>
                    (case char_op font8 ch tx ty color background s of
                       Inl e \<Rightarrow> Inl e
                     | Inr s1 \<Rightarrow> Inr (tx + 8, ty, s1))
                | Some f \<Rightarrow>
                    (case font_char f ch tx ty color background s of
                       Inl e \<Rightarrow> Inl e
                     | Inr (cw, s1) \<Rightarrow> Inr (tx + cw, ty, s1)))))"

text \<open>The loop \<open>for char in text\<close>, stopping at the first error.\<close>

fun text_chars ::
  "(char \<Rightarrow> int \<times> int \<times> driver \<Rightarrow> error + (int \<times> int \<times> driver)) \<Rightarrow> string \<Rightarrow>
   int \<times> int \<times> driver \<Rightarrow> error + (int \<times> int \<times> driver)" where
  "text_chars step [] st = Inr st"
| "text_chars step (ch # rest) st =
     (case step ch st of Inl e \<Rightarrow> Inl e | Inr st1 \<Rightarrow> text_chars step rest st1)"

text \<open>\<open>text(text, x, y, color, background, wrap, vwrap, clear_eol, font)\<close>\<close>

definition text_op ::
  "glyphs \<Rightarrow> string \<Rightarrow> int \<Rightarrow> int \<Rightarrow> int \<Rightarrow> int \<Rightarrow> int option \<Rightarrow> int option \<Rightarrow> bool \<Rightarrow>
   font option \<Rightarrow> driver \<Rightarrow> error + driver" where
  "text_op font8 txt x y color background wrap vwrap clear_eol fnt s =
     (let wrap = (case wrap of None \<Rightarrow> width - 8 | Some v \<Rightarrow> v);
          vwrap = (case vwrap of None \<Rightarrow> height - 8 | Some v \<Rightarrow> v)
      in case text_chars (text_step font8 x y color background wrap vwrap clear_eol fnt)
                txt (x, y, s) of
           Inl e \<Rightarrow> Inl e
         | Inr (tx, ty, s1) \<Rightarrow>
             if clear_eol \<and> tx < wrap
             then fill_rectangle tx ty (wrap - tx + 7) 8 background s1
             else Inr s1)"

section \<open>Vocabulary of the properties\<close>

text \<open>What one \<open>_write(command)\<close> without data, and one \<open>_data(data)\<close>, leave in the log.\<close>

definition cmd_events :: "byte \<Rightarrow> event list" where
  "cmd_events c = [DC 0, CS 0, SPI_write [c], CS 1]"

definition data_events :: "byte list \<Rightarrow> event list" where
  "data_events d = [DC 1, CS 0, SPI_write d, CS 1]"

text \<open>The column-set and page-set commands that address the window (x0, y0)-(x1, y1).\<close>

definition window_events :: "int \<Rightarrow> int \<Rightarrow> int \<Rightarrow> int \<Rightarrow> event list" where
  "window_events x0 y0 x1 y1 =
     cmd_events COLUMN_SET @ data_events (pack_HH x0 x1) @
     cmd_events PAGE_SET @ data_events (pack_HH y0 y1)"

text \<open>The invariant of an addressing window.\<close>

definition window_ok :: "int \<Rightarrow> int \<Rightarrow> int \<Rightarrow> int \<Rightarrow> bool" where
  "window_ok x0 y0 x1 y1 =
     (0 \<le> x0 \<and> x0 \<le> x1 \<and> x1 < width \<and> 0 \<le> y0 \<and> y0 \<le> y1 \<and> y1 < height)"

text \<open>The value of a 2-byte big-endian payload.\<close>

definition unpack_H :: "byte list \<Rightarrow> int" where
  "unpack_H bs = (case bs of [hi, lo] \<Rightarrow> uint hi * 256 + uint lo | _ \<Rightarrow> 0)"

text \<open>The 5-6-5 channel fields of a 16-bit colour.\<close>

definition red_field :: "int \<Rightarrow> int" where
  "red_field c = drop_bit 11 c AND 0x1f"

definition green_field :: "int \<Rightarrow> int" where
  "green_field c = drop_bit 5 c AND 0x3f"

definition blue_field :: "int \<Rightarrow> int" where
  "blue_field c = c AND 0x1f"

text \<open>A data transfer of \<open>n\<close> pixels of one colour.\<close>

definition pixels :: "int \<Rightarrow> nat \<Rightarrow> byte list" where
  "pixels color n = concat (replicate n (pack_H color))"

text \<open>
  The data transfers that stream \<open>n\<close> pixels of one colour: the full chunks of 512
  pixels, then the rest.
\<close>

definition chunk_events :: "int \<Rightarrow> int \<Rightarrow> event list" where
  "chunk_events color n =
     concat (replicate (nat (n div 512)) (data_events (pixels color 512))) @
     data_events (pixels color (nat (n mod 512)))"

text \<open>
  Concrete inputs: a driver as the constructor's default arguments leave it (mode BGR,
  scroll offset 0) with the log started afresh, in front of a panel that answers the
  bytes 8, 16, 24, ... to a read; a built-in font whose glyphs are all blank; and an
  external font whose glyphs are one column of eight rows.
\<close>

definition panel_bytes :: "nat \<Rightarrow> byte" where
  "panel_bytes i = word_of_nat (8 * (i + 1))"

definition driver0 :: driver where
  "driver0 = \<lparr>mode = MADCTL_BGR, scroll_offset = 0, bus = [], miso = panel_bytes\<rparr>"

definition blank_font8 :: glyphs where
  "blank_font8 ch c = 0"

definition tiny_font :: font where
  "tiny_font ch = ([0x81], 8, 1)"

section \<open>What the primitives leave in the log\<close>

lemma priv_data_eq: "priv_data d s = s\<lparr>bus := bus s @ data_events d\<rparr>"
  by (simp add: priv_data_def data_events_def)

lemma priv_write_Some:
  "priv_write c (Some d) s = s\<lparr>bus := bus s @ cmd_events c @ data_events d\<rparr>"
  by (simp add: priv_write_def priv_data_eq cmd_events_def)

lemma priv_block_Some:
  "priv_block x0 y0 x1 y1 (Some d) s =
     Inr (None, s\<lparr>bus := bus s @ window_events x0 y0 x1 y1 @
                    cmd_events RAM_WRITE @ data_events d\<rparr>)"
  by (simp add: priv_block_def priv_write_Some window_events_def)

lemma priv_block_None:
  "0 \<le> (x1 - x0 + 1) * (y1 - y0 + 1) * 3 \<Longrightarrow>
   priv_block x0 y0 x1 y1 None s =
     Inr (Some (map (miso s) [0..<nat ((x1 - x0 + 1) * (y1 - y0 + 1) * 3)]),
          s\<lparr>bus := bus s @ window_events x0 y0 x1 y1 @
              [DC 0, CS 0, SPI_write [RAM_READ],
               SPI_read ((x1 - x0 + 1) * (y1 - y0 + 1) * 3), CS 1]\<rparr>)"
  by (simp add: priv_block_def priv_write_Some priv_read_def window_events_def)

lemma upt_3: "[0..<3] = [0, 1, 2]"
  by code_simp

lemma pixel_read_eq:
  "pixel x y None s =
     Inr (Some (color565 (uint (miso s 0)) (uint (miso s 2)) (uint (miso s 1))),
          s\<lparr>bus := bus s @ window_events x y x y @
              [DC 0, CS 0, SPI_write [RAM_READ], SPI_read 3, CS 1]\<rparr>)"
  by (simp add: pixel_def priv_block_None upt_3)

lemma length_pack_H: "length (pack_H v) = 2"
  by (simp add: pack_H_def)

lemma length_pixels: "length (pixels color n) = 2 * n"
  by (induction n) (simp_all add: pixels_def length_pack_H)

lemma unpack_pack_H: "0 \<le> v \<Longrightarrow> v < 65536 \<Longrightarrow> unpack_H (pack_H v) = v"
  by (simp add: unpack_H_def pack_H_def uint_word_of_int drop_bit_eq_div)

section \<open>Rectangles\<close>

lemma fill_clamp_bounds:
  assumes "fill_clamp x y w h = (x0, y0, w', h')"
  shows "0 \<le> x0" "x0 \<le> width - 1" "0 \<le> y0" "y0 \<le> height - 1"
    "1 \<le> w'" "w' \<le> width - x0" "1 \<le> h'" "h' \<le> height - y0"
proof -
  from assms have x0: "x0 = min 319 (max 0 x)" and y0: "y0 = min 239 (max 0 y)"
    and w': "w' = min (320 - x0) (max 1 w)" and h': "h' = min (240 - y0) (max 1 h)"
    by (auto simp add: fill_clamp_def Let_def width_def height_def)
  show "0 \<le> x0" using x0 by simp
  show b: "x0 \<le> width - 1" using x0 by (simp add: width_def)
  show "0 \<le> y0" using y0 by simp
  show d: "y0 \<le> height - 1" using y0 by (simp add: height_def)
  show "1 \<le> w'" using w' b by (simp add: width_def)
  show "w' \<le> width - x0" using w' by (simp add: width_def)
  show "1 \<le> h'" using h' d by (simp add: height_def)
  show "h' \<le> height - y0" using h' by (simp add: height_def)
qed

lemma fill_clamp_window_ok:
  assumes "fill_clamp x y w h = (x0, y0, w', h')"
  shows "window_ok x0 y0 (x0 + w' - 1) (y0 + h' - 1)"
  using fill_clamp_bounds [OF assms] by (simp add: window_ok_def)

lemma fold_priv_data:
  "fold (\<lambda>count. priv_data d) xs s =
     s\<lparr>bus := bus s @ concat (replicate (length xs) (data_events d))\<rparr>"
  by (induction xs arbitrary: s) (simp_all add: priv_data_eq)

lemma fill_rectangle_eq:
  assumes "fill_clamp x y w h = (x0, y0, w', h')"
  shows "fill_rectangle x y w h color s =
     Inr (s\<lparr>bus := bus s @ window_events x0 y0 (x0 + w' - 1) (y0 + h' - 1) @
            cmd_events RAM_WRITE @ data_events [] @
            concat (replicate (nat (w' * h' div 512)) (data_events (pixels color 512))) @
            data_events (pixels color (nat (w' * h' mod 512)))\<rparr>)"
  by (simp add: fill_rectangle_def assms priv_block_Some Let_def fold_priv_data
      priv_data_eq pixels_def)

lemma pixels_0: "pixels color 0 = []"
  by (simp add: pixels_def)

lemma fill_clamp_neg5: "fill_clamp (- 5) (- 5) 10 10 = (0, 0, 10, 10)"
  by (simp add: fill_clamp_def width_def height_def)

lemma fill_clamp_100_10: "fill_clamp 0 0 100 10 = (0, 0, 100, 10)"
  by (simp add: fill_clamp_def width_def height_def)

lemma fill_clamp_screen: "fill_clamp 0 0 width height = (0, 0, 320, 240)"
  by (simp add: fill_clamp_def width_def height_def)

section \<open>Characters\<close>

lemma char_op_eq:
  "char_op font8 ch x y color background s =
     Inr (s\<lparr>bus := bus s @ window_events x y (x + 7) (y + 7) @ cmd_events RAM_WRITE @
            data_events (char_data font8 ch color background)\<rparr>)"
  by (simp add: char_op_def priv_block_Some)

lemma font_char_eq:
  "font_char fnt ch x y color background s =
     (case fnt ch of (glyph, char_height, char_width) \<Rightarrow>
        (case font_data glyph char_height char_width color background of
           Inl e \<Rightarrow> Inl e
         | Inr odata \<Rightarrow>
             Inr (char_width,
                  s\<lparr>bus := bus s @
                         window_events x y (x + char_width - 1) (y + char_height - 1) @
                         cmd_events RAM_WRITE @ data_events odata\<rparr>)))"
  by (simp add: font_char_def priv_block_Some split: prod.splits sum.splits)

section \<open>Colours\<close>

lemma Suc_Suc_diff_2: "2 \<le> n \<Longrightarrow> Suc (Suc (n - 2)) = n"
  by simp

lemma channel_masks:
  "(0xf8::int) = push_bit 3 (mask 5)" "(0xfc::int) = push_bit 2 (mask 6)"
  "(0x1f::int) = mask 5" "(0x3f::int) = mask 6"
  by (simp_all add: mask_eq_exp_minus_1 push_bit_eq_mult)

lemma byte_take_bit: "0 \<le> b \<Longrightarrow> b \<le> 255 \<Longrightarrow> take_bit 8 b = (b::int)"
  by (simp add: take_bit_int_eq_self)

lemma red_of_color565:
  assumes "0 \<le> b" "b \<le> 255"
  shows "push_bit 3 (red_field (color565 r g b)) = r AND 0xf8"
  unfolding color565_def red_field_def channel_masks
  apply (subst byte_take_bit [OF assms, symmetric])
  apply (rule bit_eqI)
  apply (auto simp add: bit_simps)
  done

lemma green_of_color565:
  assumes "0 \<le> b" "b \<le> 255"
  shows "push_bit 2 (green_field (color565 r g b)) = g AND 0xfc"
  unfolding color565_def green_field_def channel_masks
  apply (subst byte_take_bit [OF assms, symmetric])
  apply (rule bit_eqI)
  apply (auto simp add: bit_simps Suc_Suc_diff_2)
  done

lemma blue_of_color565:
  assumes "0 \<le> b" "b \<le> 255"
  shows "push_bit 3 (blue_field (color565 r g b)) = b AND 0xf8"
  unfolding color565_def blue_field_def channel_masks
  apply (subst (1 2) byte_take_bit [OF assms, symmetric])
  apply (rule bit_eqI)
  apply (auto simp add: bit_simps)
  done

lemma color565_16_bit:
  assumes "0 \<le> b" "b \<le> 255"
  shows "0 \<le> color565 r g b \<and> color565 r g b < 65536"
proof -
  have "take_bit 16 (color565 r g b) = color565 r g b"
    unfolding color565_def channel_masks
    apply (subst (1 2) byte_take_bit [OF assms, symmetric])
    apply (rule bit_eqI)
    apply (auto simp add: bit_simps)
    done
  then show ?thesis
    using take_bit_nonnegative [of 16 "color565 r g b"]
      take_bit_int_less_exp [of 16 "color565 r g b"]
    by simp
qed

lemma uint_byte_range: "0 \<le> uint (w :: byte) \<and> uint w \<le> 255"
  using uint_lt2p [of w] by simp

section \<open>Rotation\<close>

lemma nth_mod_4:
  "[a, b, c, d] ! nat (v mod 4) =
     (if v mod 4 = 0 then a else if v mod 4 = 1 then b
      else if v mod 4 = 2 then c else (d::int))"
proof -
  have "v mod 4 = 0 \<or> v mod 4 = 1 \<or> v mod 4 = 2 \<or> v mod 4 = 3" by presburger
  then show ?thesis by auto
qed

lemma set_rotation_eq:
  "set_rotation v s =
     s\<lparr>bus := bus s @ cmd_events MADCTL @
          data_events (pack_H ([0x40, 0x20, 0x80, 0xE0] ! nat (v mod 4) OR mode s))\<rparr>"
  unfolding set_rotation_def Let_def priv_write_Some nth_mod_4
  by (simp add: MADCTL_MX_def MADCTL_MV_def MADCTL_MY_def or.assoc [symmetric])

section \<open>Windows\<close>

lemma window_ok_1x1:
  "window_ok x y x y \<longleftrightarrow> 0 \<le> x \<and> x < width \<and> 0 \<le> y \<and> y < height"
  by (auto simp add: window_ok_def)

lemma window_ok_8x8:
  "window_ok x y (x + 7) (y + 7) \<longleftrightarrow> 0 \<le> x \<and> x \<le> width - 8 \<and> 0 \<le> y \<and> y \<le> height - 8"
  by (auto simp add: window_ok_def)

lemma pixel_write_eq:
  "pixel x y (Some c) s =
     Inr (None, if window_ok x y x y
                then s\<lparr>bus := bus s @ window_events x y x y @ cmd_events RAM_WRITE @
                              data_events (pack_H c)\<rparr>
                else s)"
  by (simp add: pixel_def priv_block_Some window_ok_1x1)

lemma pack_HH_316_323: "pack_HH 316 323 = [0x01, 0x3c, 0x01, 0x43]"
  by (simp add: pack_HH_def pack_H_def drop_bit_eq_div)

lemma pack_HH_400_400: "pack_HH 400 400 = [0x01, 0x90, 0x01, 0x90]"
  by (simp add: pack_HH_def pack_H_def drop_bit_eq_div)

lemma unpack_H_323: "unpack_H [0x01, 0x43] = 323"
  by (simp add: unpack_H_def)

lemma unpack_H_400: "unpack_H [0x01, 0x90] = 400"
  by (simp add: unpack_H_def)

lemma font_data_tiny:
  "font_data [0x81] 8 1 0xffff 0 =
     Inr [0xff, 0xff, 0, 0, 0, 0, 0, 0, 0, 0, 0, 0, 0, 0, 0xff, 0xff]"
  by code_simp

lemma chunk_events_100: "chunk_events color 100 = data_events (pixels color 100)"
  by (simp add: chunk_events_def)

section \<open>The claims\<close>

text \<open>
  Claim C3. For all \<open>r\<close>, \<open>g\<close>, \<open>b\<close> in 0..255, the 5-6-5 fields of
  \<open>color565 r g b\<close> give the inputs back, masked to the bits each channel keeps:
  the red field shifted left by 3 is \<open>r & 0xF8\<close>, the green field shifted left by 2
  is \<open>g & 0xFC\<close>, the blue field shifted left by 3 is \<open>b & 0xF8\<close>.
\<close>

theorem C3_color565_roundtrip:
  assumes "0 \<le> r" "r \<le> 255" "0 \<le> g" "g \<le> 255" "0 \<le> b" "b \<le> 255"
  shows "push_bit 3 (red_field (color565 r g b)) = r AND 0xf8 \<and>
         push_bit 2 (green_field (color565 r g b)) = g AND 0xfc \<and>
         push_bit 3 (blue_field (color565 r g b)) = b AND 0xf8"
  using assms red_of_color565 green_of_color565 blue_of_color565 by simp

text \<open>Instances: the colours (0xF8, 0xFC, 0xF8) and (0xFF, 0x11, 0x22).\<close>

theorem C3_color565_roundtrip_witness:
  "push_bit 3 (red_field (color565 0xf8 0xfc 0xf8)) = 0xf8 \<and>
   push_bit 2 (green_field (color565 0xf8 0xfc 0xf8)) = 0xfc \<and>
   push_bit 3 (blue_field (color565 0xf8 0xfc 0xf8)) = 0xf8 \<and>
   push_bit 3 (red_field (color565 0xff 0x11 0x22)) = 0xf8 \<and>
   push_bit 2 (green_field (color565 0xff 0x11 0x22)) = 0x10 \<and>
   push_bit 3 (blue_field (color565 0xff 0x11 0x22)) = 0x20"
  using C3_color565_roundtrip [of 248 252 248] C3_color565_roundtrip [of 255 17 34]
  by simp

text \<open>
  Claim C6. A pixel write at a position with \<open>x\<close> outside [0, width) or \<open>y\<close>
  outside [0, height) returns without an error and leaves the driver as it was: nothing
  is added to the log of pin and bus operations. In particular \<open>pixel(400, 10, color)\<close>
  transfers nothing.
\<close>

theorem C6_pixel_out_of_range:
  "(x < 0 \<or> width \<le> x \<or> y < 0 \<or> height \<le> y \<longrightarrow> pixel x y (Some color) s = Inr (None, s)) \<and>
   pixel 400 10 (Some color) s = Inr (None, s)"
  by (auto simp add: pixel_def width_def)

text \<open>Instances: one position left of and below the panel, and the two first positions past its edges.\<close>

theorem C6_pixel_out_of_range_witness:
  "pixel (- 1) 500 (Some 0xffff) driver0 = Inr (None, driver0) \<and>
   pixel 320 0 (Some 0xffff) driver0 = Inr (None, driver0) \<and>
   pixel 0 240 (Some 0xffff) driver0 = Inr (None, driver0)"
  using C6_pixel_out_of_range [of "- 1" 500 65535 driver0]
    C6_pixel_out_of_range [of 320 0 65535 driver0]
    C6_pixel_out_of_range [of 0 240 65535 driver0]
  by (simp add: width_def height_def)

text \<open>
  Claim C7. A pixel read at any \<open>(x, y)\<close> addresses the 1x1 window at
  \<open>(x, y)\<close>, sends the RAM-read command and reads exactly 3 bytes; the first byte is
  taken as red, the second as blue, the third as green, and the result is
  \<open>color565(red, green, blue)\<close>, a value of 16 bits.
\<close>

theorem C7_pixel_read:
  "pixel x y None s =
     Inr (Some (color565 (uint (miso s 0)) (uint (miso s 2)) (uint (miso s 1))),
          s\<lparr>bus := bus s @ window_events x y x y @
              [DC 0, CS 0, SPI_write [RAM_READ], SPI_read 3, CS 1]\<rparr>) \<and>
   0 \<le> color565 (uint (miso s 0)) (uint (miso s 2)) (uint (miso s 1)) \<and>
   color565 (uint (miso s 0)) (uint (miso s 2)) (uint (miso s 1)) < 65536"
  using color565_16_bit [of "uint (miso s 1)"] uint_byte_range [of "miso s 1"]
  by (simp add: pixel_read_eq)

text \<open>Instance: the panel answers 8, 16, 24, so red is 8, blue 16 and green 24.\<close>

theorem C7_pixel_read_witness:
  "pixel 10 20 None driver0 =
     Inr (Some 2242,
          driver0\<lparr>bus := window_events 10 20 10 20 @
              [DC 0, CS 0, SPI_write [0x2e], SPI_read 3, CS 1]\<rparr>) \<and>
   color565 8 24 16 = 2242"
  using C7_pixel_read [of 10 20 driver0]
  by (simp add: driver0_def panel_bytes_def color565_def RAM_READ_def)

text \<open>
  Claim C8. \<open>scroll()\<close> returns the stored offset and writes nothing.
  \<open>scroll(dy)\<close> stores \<open>(offset + dy) mod height\<close> and writes that value, as two
  bytes with the most significant first, to the vertical-scroll-start register; the stored
  offset then lies in [0, height - 1]. From offset 0, \<open>scroll(250)\<close> stores 10.
\<close>

theorem C8_scroll:
  "scroll None s = (Some (scroll_offset s), s) \<and>
   scroll (Some dy) s =
     (None, s\<lparr>scroll_offset := (scroll_offset s + dy) mod height,
               bus := bus s @ cmd_events LINE_SET @
                        data_events (pack_H ((scroll_offset s + dy) mod height))\<rparr>) \<and>
   0 \<le> scroll_offset (snd (scroll (Some dy) s)) \<and>
   scroll_offset (snd (scroll (Some dy) s)) \<le> height - 1 \<and>
   unpack_H (pack_H ((scroll_offset s + dy) mod height)) = (scroll_offset s + dy) mod height \<and>
   scroll_offset (snd (scroll (Some 250) (s\<lparr>scroll_offset := 0\<rparr>))) = 10"
proof -
  have "0 \<le> (scroll_offset s + dy) mod height" "(scroll_offset s + dy) mod height < 65536"
    using pos_mod_bound [of 240 "scroll_offset s + dy"] by (simp_all add: height_def)
  then have "unpack_H (pack_H ((scroll_offset s + dy) mod height)) = (scroll_offset s + dy) mod height"
    by (rule unpack_pack_H)
  then show ?thesis
    by (simp add: scroll_def priv_write_Some height_def)
qed

text \<open>
  Claim C2, as stated, fails: the second entry of the list is the swap-axes flag alone,
  0x20, not 0x60. With mode BGR, \<open>set_rotation(1)\<close> writes the payload 00 28, and the
  payload the claim's list gives, 00 68, is another one.
\<close>

theorem C2_counterexample:
  "bus (set_rotation 1 driver0) = cmd_events MADCTL @ data_events [0x00, 0x28] \<and>
   cmd_events MADCTL @ data_events (pack_H ([0x40, 0x60, 0x80, 0xE0] ! nat (1 mod 4) OR mode driver0))
     = cmd_events MADCTL @ data_events [0x00, 0x68] \<and>
   bus (set_rotation 1 driver0) \<noteq>
     cmd_events MADCTL @ data_events (pack_H ([0x40, 0x60, 0x80, 0xE0] ! nat (1 mod 4) OR mode driver0))"
  by (simp add: set_rotation_eq driver0_def MADCTL_BGR_def pack_H_def data_events_def drop_bit_eq_div)

text \<open>
  Claim C2, amended. For every integer \<open>value\<close>, \<open>set_rotation(value)\<close> writes to
  the memory-access-control register the two bytes, most significant first, of the entry
  \<open>value mod 4\<close> of (0x40, 0x20, 0x80, 0xE0) (mirror-X, swap-axes, mirror-Y,
  mirror-X + mirror-Y + swap-axes) or-ed with the mode; for a mode below 65536 the
  payload's value is that number, and \<open>set_rotation(1)\<close> with mode BGR writes
  0x20 | 0x08.
\<close>

theorem C2_set_rotation:
  "set_rotation v s =
     s\<lparr>bus := bus s @ cmd_events MADCTL @
          data_events (pack_H ([0x40, 0x20, 0x80, 0xE0] ! nat (v mod 4) OR mode s))\<rparr> \<and>
   (0 \<le> mode s \<and> mode s < 65536 \<longrightarrow>
      unpack_H (pack_H ([0x40, 0x20, 0x80, 0xE0] ! nat (v mod 4) OR mode s)) =
        [0x40, 0x20, 0x80, 0xE0] ! nat (v mod 4) OR mode s) \<and>
   (mode s = MADCTL_BGR \<longrightarrow>
      set_rotation 1 s = s\<lparr>bus := bus s @ cmd_events MADCTL @ data_events [0x00, 0x28]\<rparr> \<and>
      (0x28 :: int) = 0x20 OR 0x08)"
proof (intro conjI impI)
  show "set_rotation v s =
     s\<lparr>bus := bus s @ cmd_events MADCTL @
          data_events (pack_H ([0x40, 0x20, 0x80, 0xE0] ! nat (v mod 4) OR mode s))\<rparr>"
    by (rule set_rotation_eq)
next
  assume m: "0 \<le> mode s \<and> mode s < 65536"
  let ?f = "[0x40, 0x20, 0x80, 0xE0] ! nat (v mod 4) :: int"
  have f: "0 \<le> ?f \<and> ?f < 2 ^ 16" by (simp add: nth_mod_4)
  have "0 \<le> ?f OR mode s" using f m by simp
  moreover have "?f OR mode s < 2 ^ 16"
    using f m by (intro OR_upper) simp_all
  ultimately show "unpack_H (pack_H (?f OR mode s)) = ?f OR mode s"
    by (intro unpack_pack_H) simp_all
next
  assume "mode s = MADCTL_BGR"
  then show "set_rotation 1 s = s\<lparr>bus := bus s @ cmd_events MADCTL @ data_events [0x00, 0x28]\<rparr>"
    by (simp add: set_rotation_eq MADCTL_BGR_def pack_H_def drop_bit_eq_div)
next
  show "(0x28 :: int) = 0x20 OR 0x08" by simp
qed

text \<open>Instance: \<open>set_rotation(1)\<close> on a driver in mode BGR.\<close>

theorem C2_set_rotation_witness:
  "mode driver0 = MADCTL_BGR \<and> 0 \<le> mode driver0 \<and> mode driver0 < 65536 \<and>
   set_rotation 1 driver0 =
     driver0\<lparr>bus := bus driver0 @ cmd_events MADCTL @ data_events [0x00, 0x28]\<rparr> \<and>
   unpack_H (pack_H ([0x40, 0x20, 0x80, 0xE0] ! nat (1 mod 4) OR mode driver0)) =
     [0x40, 0x20, 0x80, 0xE0] ! nat (1 mod 4) OR mode driver0"
proof -
  have m: "mode driver0 = MADCTL_BGR" by (simp add: driver0_def)
  have r: "0 \<le> mode driver0 \<and> mode driver0 < 65536"
    by (simp add: driver0_def MADCTL_BGR_def)
  note t = C2_set_rotation [of 1 driver0]
  note a = t [THEN conjunct2, THEN conjunct2, THEN mp, OF m, THEN conjunct1]
  note b = t [THEN conjunct2, THEN conjunct1, THEN mp, OF r]
  show ?thesis
    by (intro conjI) (rule m r [THEN conjunct1] r [THEN conjunct2] a b)+
qed

text \<open>
  Claim C1, as stated, fails: \<open>char\<close> does not clip. At \<open>(316, 0)\<close> it
  addresses the columns 316 to 323, sent as 01 3c 01 43, and 323 is not below the width
  320. A pixel read at \<open>(400, 10)\<close> addresses column 400 in the same way.
\<close>

theorem C1_counterexample:
  "char_op blank_font8 CHR ''A'' 316 0 0xffff 0 driver0 =
     Inr (driver0\<lparr>bus := bus driver0 @ window_events 316 0 323 7 @ cmd_events RAM_WRITE @
            data_events (char_data blank_font8 CHR ''A'' 0xffff 0)\<rparr>) \<and>
   pack_HH 316 323 = [0x01, 0x3c, 0x01, 0x43] \<and>
   unpack_H [0x01, 0x43] = 323 \<and>
   \<not> window_ok 316 0 323 7 \<and>
   pixel 400 10 None driver0 =
     Inr (Some (color565 (uint (miso driver0 0)) (uint (miso driver0 2)) (uint (miso driver0 1))),
          driver0\<lparr>bus := bus driver0 @ window_events 400 10 400 10 @
              [DC 0, CS 0, SPI_write [RAM_READ], SPI_read 3, CS 1]\<rparr>) \<and>
   pack_HH 400 400 = [0x01, 0x90, 0x01, 0x90] \<and>
   unpack_H [0x01, 0x90] = 400 \<and>
   \<not> window_ok 400 10 400 10"
proof -
  have "char_op blank_font8 CHR ''A'' 316 0 0xffff 0 driver0 =
     Inr (driver0\<lparr>bus := bus driver0 @ window_events 316 0 323 7 @ cmd_events RAM_WRITE @
            data_events (char_data blank_font8 CHR ''A'' 0xffff 0)\<rparr>)"
    using char_op_eq [of blank_font8 "CHR ''A''" 316 0 "0xffff" 0 driver0] by simp
  moreover have "\<not> window_ok 316 0 323 7" "\<not> window_ok 400 10 400 10"
    by (simp_all add: window_ok_def width_def)
  ultimately show ?thesis
    using pixel_read_eq [of 400 10 driver0]
    by (simp only: pack_HH_316_323 pack_HH_400_400 unpack_H_323 unpack_H_400 simp_thms)
qed

text \<open>
  Claim C1, amended. A pixel write and \<open>fill_rectangle\<close> only address windows with
  \<open>0 \<le> x0 \<le> x1 < width\<close> and \<open>0 \<le> y0 \<le> y1 < height\<close>: the pixel write
  addresses the 1x1 window at \<open>(x, y)\<close> when that window is in range and does
  nothing otherwise, \<open>fill_rectangle\<close> addresses the clamped rectangle. \<open>char\<close>
  and \<open>font_char\<close> do not clip: they address the window they are asked for,
  \<open>(x, y)-(x + 7, y + 7)\<close> and \<open>(x, y)-(x + char_width - 1, y + char_height - 1)\<close>;
  the window of \<open>char\<close> is in range exactly when \<open>0 \<le> x \<le> width - 8\<close> and
  \<open>0 \<le> y \<le> height - 8\<close>.
\<close>

theorem C1_windows:
  "pixel x y (Some c) s =
     Inr (None, if window_ok x y x y
                then s\<lparr>bus := bus s @ window_events x y x y @ cmd_events RAM_WRITE @
                              data_events (pack_H c)\<rparr>
                else s) \<and>
   (case fill_clamp x y w h of (x0, y0, w', h') \<Rightarrow>
      window_ok x0 y0 (x0 + w' - 1) (y0 + h' - 1) \<and>
      fill_rectangle x y w h c s =
        Inr (s\<lparr>bus := bus s @ window_events x0 y0 (x0 + w' - 1) (y0 + h' - 1) @
               cmd_events RAM_WRITE @ data_events [] @ chunk_events c (w' * h')\<rparr>)) \<and>
   char_op font8 ch x y c background s =
     Inr (s\<lparr>bus := bus s @ window_events x y (x + 7) (y + 7) @ cmd_events RAM_WRITE @
            data_events (char_data font8 ch c background)\<rparr>) \<and>
   (window_ok x y (x + 7) (y + 7) \<longleftrightarrow>
      0 \<le> x \<and> x \<le> width - 8 \<and> 0 \<le> y \<and> y \<le> height - 8) \<and>
   font_char fnt ch x y c background s =
     (case fnt ch of (glyph, char_height, char_width) \<Rightarrow>
        (case font_data glyph char_height char_width c background of
           Inl e \<Rightarrow> Inl e
         | Inr odata \<Rightarrow>
             Inr (char_width,
                  s\<lparr>bus := bus s @
                         window_events x y (x + char_width - 1) (y + char_height - 1) @
                         cmd_events RAM_WRITE @ data_events odata\<rparr>)))"
proof (intro conjI)
  show "case fill_clamp x y w h of (x0, y0, w', h') \<Rightarrow>
      window_ok x0 y0 (x0 + w' - 1) (y0 + h' - 1) \<and>
      fill_rectangle x y w h c s =
        Inr (s\<lparr>bus := bus s @ window_events x0 y0 (x0 + w' - 1) (y0 + h' - 1) @
               cmd_events RAM_WRITE @ data_events [] @ chunk_events c (w' * h')\<rparr>)"
  proof -
    obtain x0 y0 w' h' where f: "fill_clamp x y w h = (x0, y0, w', h')"
      by (metis prod_cases4)
    show ?thesis
      using fill_clamp_window_ok [OF f] fill_rectangle_eq [OF f, of c s]
      by (simp add: f chunk_events_def)
  qed
qed (rule pixel_write_eq char_op_eq window_ok_8x8 font_char_eq)+

text \<open>
  Instances: a pixel write inside the panel and one at the first column past it, a
  rectangle that starts outside the panel, and a glyph of one column and eight rows.
\<close>

theorem C1_windows_witness:
  "pixel 10 20 (Some 5) driver0 =
     Inr (None, driver0\<lparr>bus := bus driver0 @ window_events 10 20 10 20 @
                    cmd_events RAM_WRITE @ data_events (pack_H 5)\<rparr>) \<and>
   pixel 320 20 (Some 5) driver0 = Inr (None, driver0) \<and>
   fill_rectangle (- 5) (- 5) 10 10 5 driver0 =
     Inr (driver0\<lparr>bus := bus driver0 @ window_events 0 0 9 9 @
            cmd_events RAM_WRITE @ data_events [] @ chunk_events 5 100\<rparr>) \<and>
   window_ok 0 0 9 9 \<and>
   font_char tiny_font CHR ''A'' 10 20 0xffff 0 driver0 =
     Inr (1, driver0\<lparr>bus := bus driver0 @ window_events 10 20 10 27 @ cmd_events RAM_WRITE @
               data_events [0xff, 0xff, 0, 0, 0, 0, 0, 0, 0, 0, 0, 0, 0, 0, 0xff, 0xff]\<rparr>)"
proof -
  note t = C1_windows [of 10 20 5 driver0 "- 5" "- 5" blank_font8 "CHR ''A''" 0 tiny_font]
  note u = C1_windows [of 320 20 5 driver0 "- 5" "- 5" blank_font8 "CHR ''A''" 0 tiny_font]
  note v = C1_windows [of "- 5" "- 5" 5 driver0 10 10 blank_font8 "CHR ''A''" 0 tiny_font]
  note w = C1_windows [of 10 20 "0xffff" driver0 10 10 blank_font8 "CHR ''A''" 0 tiny_font]
  have 1: "pixel 10 20 (Some 5) driver0 =
     Inr (None, driver0\<lparr>bus := bus driver0 @ window_events 10 20 10 20 @
                    cmd_events RAM_WRITE @ data_events (pack_H 5)\<rparr>)"
    using t [THEN conjunct1] by (simp add: window_ok_def width_def height_def)
  have 2: "pixel 320 20 (Some 5) driver0 = Inr (None, driver0)"
    using u [THEN conjunct1] by (simp add: window_ok_def width_def height_def)
  have 3: "window_ok 0 0 9 9 \<and> fill_rectangle (- 5) (- 5) 10 10 5 driver0 =
     Inr (driver0\<lparr>bus := bus driver0 @ window_events 0 0 9 9 @
            cmd_events RAM_WRITE @ data_events [] @ chunk_events 5 100\<rparr>)"
    using v [THEN conjunct2, THEN conjunct1] by (simp add: fill_clamp_neg5)
  have 4: "font_char tiny_font CHR ''A'' 10 20 0xffff 0 driver0 =
     Inr (1, driver0\<lparr>bus := bus driver0 @ window_events 10 20 10 27 @ cmd_events RAM_WRITE @
               data_events [0xff, 0xff, 0, 0, 0, 0, 0, 0, 0, 0, 0, 0, 0, 0, 0xff, 0xff]\<rparr>)"
    using w [THEN conjunct2, THEN conjunct2, THEN conjunct2, THEN conjunct2]
    by (simp add: tiny_font_def font_data_tiny)
  show ?thesis using 1 2 3 4 by (simp only: simp_thms)
qed

text \<open>
  Claim C4. When the clamped area of \<open>fill_rectangle(x, y, w, h, color)\<close> is
  \<open>n\<close> pixels, the window is addressed with an empty payload and the pixels follow
  as \<open>n div 512\<close> data transfers of 512 pixels (1024 bytes) and a last data transfer
  of \<open>n mod 512\<close> pixels, each pixel being the two packed bytes of the colour. A fill
  of 1000 pixels is one full chunk and a last chunk of 488 pixels.
\<close>

theorem C4_fill_rectangle_chunks:
  assumes "fill_clamp x y w h = (x0, y0, w', h')" and "n = w' * h'"
  shows "fill_rectangle x y w h color s =
     Inr (s\<lparr>bus := bus s @ window_events x0 y0 (x0 + w' - 1) (y0 + h' - 1) @
            cmd_events RAM_WRITE @ data_events [] @
            concat (replicate (nat (n div 512)) (data_events (pixels color 512))) @
            data_events (pixels color (nat (n mod 512)))\<rparr>) \<and>
    pixels color 512 = concat (replicate 512 (pack_H color)) \<and>
    pixels color (nat (n mod 512)) = concat (replicate (nat (n mod 512)) (pack_H color)) \<and>
    length (pack_H color) = 2 \<and>
    length (pixels color 512) = 1024 \<and>
    length (pixels color (nat (n mod 512))) = 2 * nat (n mod 512) \<and>
    nat (n mod 512) < 512 \<and>
    int (nat (n div 512)) = n div 512 \<and>
    int (nat (n mod 512)) = n mod 512 \<and>
    (n = 1000 \<longrightarrow> nat (n div 512) = 1 \<and> nat (n mod 512) = 488)"
proof (intro conjI impI)
  have "1 \<le> w'" "1 \<le> h'" using fill_clamp_bounds [OF assms(1)] by simp_all
  then have n: "0 \<le> n" using assms(2) by simp
  show "fill_rectangle x y w h color s =
     Inr (s\<lparr>bus := bus s @ window_events x0 y0 (x0 + w' - 1) (y0 + h' - 1) @
            cmd_events RAM_WRITE @ data_events [] @
            concat (replicate (nat (n div 512)) (data_events (pixels color 512))) @
            data_events (pixels color (nat (n mod 512)))\<rparr>)"
    unfolding assms(2) by (rule fill_rectangle_eq [OF assms(1)])
  show "pixels color 512 = concat (replicate 512 (pack_H color))"
    by (rule pixels_def)
  show "pixels color (nat (n mod 512)) = concat (replicate (nat (n mod 512)) (pack_H color))"
    by (rule pixels_def)
  show "length (pack_H color) = 2" by (rule length_pack_H)
  show "length (pixels color 512) = 1024" by (simp add: length_pixels)
  show "length (pixels color (nat (n mod 512))) = 2 * nat (n mod 512)"
    by (rule length_pixels)
  show "nat (n mod 512) < 512" by simp
  show "int (nat (n div 512)) = n div 512" using n by simp
  show "int (nat (n mod 512)) = n mod 512" by simp
  show "nat (n div 512) = 1" if "n = 1000" using that by simp
  show "nat (n mod 512) = 488" if "n = 1000" using that by simp
qed

text \<open>Instance: the rectangle of 100 by 10 pixels at the origin.\<close>

theorem C4_fill_rectangle_chunks_witness:
  "fill_clamp 0 0 100 10 = (0, 0, 100, 10) \<and>
   fill_rectangle 0 0 100 10 5 driver0 =
     Inr (driver0\<lparr>bus := bus driver0 @ window_events 0 0 99 9 @
            cmd_events RAM_WRITE @ data_events [] @
            data_events (pixels 5 512) @ data_events (pixels 5 488)\<rparr>) \<and>
   length (pixels 5 488) = 976"
proof -
  have n: "(1000::int) = 100 * 10" by simp
  note t = C4_fill_rectangle_chunks [OF fill_clamp_100_10 n, of 5 driver0]
  have "fill_rectangle 0 0 100 10 5 driver0 =
     Inr (driver0\<lparr>bus := bus driver0 @ window_events 0 0 99 9 @
            cmd_events RAM_WRITE @ data_events [] @
            data_events (pixels 5 512) @ data_events (pixels 5 488)\<rparr>)"
    using t [THEN conjunct1] by simp
  then show ?thesis using fill_clamp_100_10 by (simp add: length_pixels)
qed

text \<open>
  Claim C5. \<open>fill_rectangle\<close> clamps \<open>x\<close> into [0, width - 1] and \<open>y\<close> into
  [0, height - 1], then \<open>w\<close> and \<open>h\<close> to at least 1 and at most the space left, so
  the one window it addresses is in bounds. On the 320x240 panel,
  \<open>fill_rectangle(-5, -5, 10, 10, c)\<close> addresses the window (0, 0)-(9, 9) and
  streams 100 pixels.
\<close>

theorem C5_fill_rectangle_clamp:
  "(case fill_clamp x y w h of (x0, y0, w', h') \<Rightarrow>
      x0 = min (width - 1) (max 0 x) \<and> y0 = min (height - 1) (max 0 y) \<and>
      w' = min (width - x0) (max 1 w) \<and> h' = min (height - y0) (max 1 h) \<and>
      0 \<le> x0 \<and> x0 \<le> width - 1 \<and> 0 \<le> y0 \<and> y0 \<le> height - 1 \<and>
      1 \<le> w' \<and> w' \<le> width - x0 \<and> 1 \<le> h' \<and> h' \<le> height - y0 \<and>
      window_ok x0 y0 (x0 + w' - 1) (y0 + h' - 1) \<and>
      fill_rectangle x y w h color s =
        Inr (s\<lparr>bus := bus s @ window_events x0 y0 (x0 + w' - 1) (y0 + h' - 1) @
               cmd_events RAM_WRITE @ data_events [] @ chunk_events color (w' * h')\<rparr>)) \<and>
   fill_rectangle (- 5) (- 5) 10 10 color s =
     Inr (s\<lparr>bus := bus s @ window_events 0 0 9 9 @ cmd_events RAM_WRITE @ data_events [] @
            data_events (pixels color 100)\<rparr>)"
proof -
  obtain x0 y0 w' h' where f: "fill_clamp x y w h = (x0, y0, w', h')"
    by (metis prod_cases4)
  from f have e: "x0 = min (width - 1) (max 0 x)" "y0 = min (height - 1) (max 0 y)"
    "w' = min (width - x0) (max 1 w)" "h' = min (height - y0) (max 1 h)"
    by (auto simp add: fill_clamp_def Let_def)
  have r: "fill_rectangle x y w h color s =
        Inr (s\<lparr>bus := bus s @ window_events x0 y0 (x0 + w' - 1) (y0 + h' - 1) @
               cmd_events RAM_WRITE @ data_events [] @ chunk_events color (w' * h')\<rparr>)"
    unfolding chunk_events_def by (rule fill_rectangle_eq [OF f])
  have g: "fill_rectangle (- 5) (- 5) 10 10 color s =
     Inr (s\<lparr>bus := bus s @ window_events 0 0 9 9 @ cmd_events RAM_WRITE @ data_events [] @
            data_events (pixels color 100)\<rparr>)"
    using fill_rectangle_eq [OF fill_clamp_neg5, of color s] by simp
  have main: "x0 = min (width - 1) (max 0 x) \<and> y0 = min (height - 1) (max 0 y) \<and>
      w' = min (width - x0) (max 1 w) \<and> h' = min (height - y0) (max 1 h) \<and>
      0 \<le> x0 \<and> x0 \<le> width - 1 \<and> 0 \<le> y0 \<and> y0 \<le> height - 1 \<and>
      1 \<le> w' \<and> w' \<le> width - x0 \<and> 1 \<le> h' \<and> h' \<le> height - y0 \<and>
      window_ok x0 y0 (x0 + w' - 1) (y0 + h' - 1) \<and>
      fill_rectangle x y w h color s =
        Inr (s\<lparr>bus := bus s @ window_events x0 y0 (x0 + w' - 1) (y0 + h' - 1) @
               cmd_events RAM_WRITE @ data_events [] @ chunk_events color (w' * h')\<rparr>)"
    by (intro conjI) (rule e fill_clamp_bounds [OF f] fill_clamp_window_ok [OF f] r)+
  show ?thesis
    unfolding f prod.case by (rule conjI [OF main g])
qed

text \<open>
  Claim C10. When the clamped pixel count of \<open>fill_rectangle\<close> is a multiple of 512,
  the data transfer after the full chunks carries no byte: data/command high, chip-select
  low, an empty write, chip-select high. \<open>fill(color)\<close> covers 76800 = 150 * 512
  pixels and always ends so.
\<close>

theorem C10_fill_rectangle_empty_tail:
  "(fill_clamp x y w h = (x0, y0, w', h') \<and> w' * h' mod 512 = 0 \<longrightarrow>
    fill_rectangle x y w h color s =
      Inr (s\<lparr>bus := bus s @ window_events x0 y0 (x0 + w' - 1) (y0 + h' - 1) @
             cmd_events RAM_WRITE @ data_events [] @
             concat (replicate (nat (w' * h' div 512)) (data_events (pixels color 512))) @
             data_events []\<rparr>)) \<and>
   fill color s =
     Inr (s\<lparr>bus := bus s @ window_events 0 0 319 239 @
            cmd_events RAM_WRITE @ data_events [] @
            concat (replicate 150 (data_events (pixels color 512))) @
            data_events []\<rparr>) \<and>
   data_events [] = [DC 1, CS 0, SPI_write [], CS 1]"
proof (intro conjI impI)
  assume a: "fill_clamp x y w h = (x0, y0, w', h') \<and> w' * h' mod 512 = 0"
  then have f: "fill_clamp x y w h = (x0, y0, w', h')" and m: "w' * h' mod 512 = 0"
    by simp_all
  show "fill_rectangle x y w h color s =
      Inr (s\<lparr>bus := bus s @ window_events x0 y0 (x0 + w' - 1) (y0 + h' - 1) @
             cmd_events RAM_WRITE @ data_events [] @
             concat (replicate (nat (w' * h' div 512)) (data_events (pixels color 512))) @
             data_events []\<rparr>)"
    unfolding fill_rectangle_eq [OF f] m by (simp only: nat_0 pixels_0)
next
  have d: "(320 * 240 div 512 :: int) = 150" "(320 * 240 mod 512 :: int) = 0" by simp_all
  have n: "nat 150 = 150" by simp
  show "fill color s =
     Inr (s\<lparr>bus := bus s @ window_events 0 0 319 239 @
            cmd_events RAM_WRITE @ data_events [] @
            concat (replicate 150 (data_events (pixels color 512))) @
            data_events []\<rparr>)"
    unfolding fill_def fill_rectangle_eq [OF fill_clamp_screen] d
    by (simp only: nat_0 pixels_0 n) simp
next
  show "data_events [] = [DC 1, CS 0, SPI_write [], CS 1]" by (simp add: data_events_def)
qed

text \<open>Instance: a rectangle of 32 by 16 pixels, one full chunk.\<close>

theorem C10_fill_rectangle_empty_tail_witness:
  "fill_clamp 0 0 32 16 = (0, 0, 32, 16) \<and> (32 * 16 mod 512 :: int) = 0 \<and>
   fill_rectangle 0 0 32 16 5 driver0 =
      Inr (driver0\<lparr>bus := bus driver0 @ window_events 0 0 31 15 @
             cmd_events RAM_WRITE @ data_events [] @
             data_events (pixels 5 512) @ data_events []\<rparr>)"
proof -
  have f: "fill_clamp 0 0 32 16 = (0, 0, 32, 16)"
    by (simp add: fill_clamp_def width_def height_def)
  have m: "(32 * 16 mod 512 :: int) = 0" by simp
  note t = C10_fill_rectangle_empty_tail [of 0 0 32 16 0 0 32 16 5 driver0, THEN conjunct1, THEN mp,
      OF conjI [OF f m]]
  have "fill_rectangle 0 0 32 16 5 driver0 =
      Inr (driver0\<lparr>bus := bus driver0 @ window_events 0 0 31 15 @
             cmd_events RAM_WRITE @ data_events [] @
             data_events (pixels 5 512) @ data_events []\<rparr>)"
    using t by simp
  then show ?thesis using f m by (simp only: simp_thms)
qed

text \<open>
  Claim C9. With the wrap boundary 16, the built-in font, the start \<open>x = 0\<close> and
  \<open>y + 8\<close> below the vertical boundary, a text of three characters other than the
  newline draws the first at \<open>(0, y)\<close>, the second at \<open>(8, y)\<close> and the third,
  wrapped, at \<open>(0, y + 8)\<close>. (With \<open>clear_eol\<close> the rest of the second line is
  filled afterwards.)
\<close>

theorem C9_text_wrap:
  assumes "c1 \<noteq> CHR 0x0A" "c2 \<noteq> CHR 0x0A" "c3 \<noteq> CHR 0x0A"
    and "y + 8 < (case vwrap of None \<Rightarrow> height - 8 | Some v \<Rightarrow> v)"
  shows "text_op font8 [c1, c2, c3] 0 y color background (Some 16) vwrap clear_eol None s =
     (let s3 = s\<lparr>bus := bus s @
        window_events 0 y 7 (y + 7) @ cmd_events RAM_WRITE @
          data_events (char_data font8 c1 color background) @
        window_events 8 y 15 (y + 7) @ cmd_events RAM_WRITE @
          data_events (char_data font8 c2 color background) @
        window_events 0 (y + 8) 7 (y + 15) @ cmd_events RAM_WRITE @
          data_events (char_data font8 c3 color background)\<rparr>
      in if clear_eol then fill_rectangle 8 (y + 8) 15 8 background s3 else Inr s3)"
  using assms
  by (simp add: text_op_def text_step_def new_line_def char_op_eq Let_def add.commute [of 15 y])

text \<open>Instance: the text abc at \<open>y = 5\<close> with the default vertical boundary.\<close>

theorem C9_text_wrap_witness:
  "text_op blank_font8 ''abc'' 0 5 0xffff 0 (Some 16) None False None driver0 =
     Inr (driver0\<lparr>bus := bus driver0 @
        window_events 0 5 7 12 @ cmd_events RAM_WRITE @
          data_events (char_data blank_font8 CHR ''a'' 0xffff 0) @
        window_events 8 5 15 12 @ cmd_events RAM_WRITE @
          data_events (char_data blank_font8 CHR ''b'' 0xffff 0) @
        window_events 0 13 7 20 @ cmd_events RAM_WRITE @
          data_events (char_data blank_font8 CHR ''c'' 0xffff 0)\<rparr>)"
proof -
  have n: "CHR ''a'' \<noteq> CHR 0x0A" "CHR ''b'' \<noteq> CHR 0x0A" "CHR ''c'' \<noteq> CHR 0x0A" by simp_all
  have v: "(5::int) + 8 < (case None of None \<Rightarrow> height - 8 | Some v \<Rightarrow> v)"
    by (simp add: height_def)
  note t = C9_text_wrap [OF n v, of blank_font8 "0xffff" 0 False driver0]
  show ?thesis using t by simp
qed

end
